theory Spec2Isabelle
  imports Complex_Main "HOL-Library.Sublist" "HOL-Library.AList"
begin

section \<open>Python strings\<close>

text \<open>
  City names and file names are Python \<open>str\<close> values. They are modelled as
  \<^typ>\<open>string\<close>, one \<^typ>\<open>char\<close> per code point, for ASCII text: the
  whitespace class and the case mapping below are those of \<open>str.isspace\<close> and
  \<open>str.lower\<close> on the code points 0 to 127.
\<close>

definition isspace :: "char \<Rightarrow> bool" where
  "isspace c = (let n = (of_char c :: nat) in (9 \<le> n \<and> n \<le> 13) \<or> (28 \<le> n \<and> n \<le> 32))"

definition lower_char :: "char \<Rightarrow> char" where
  "lower_char c =
     (let n = (of_char c :: nat) in if 65 \<le> n \<and> n \<le> 90 then char_of (n + 32) else c)"

definition lower :: "string \<Rightarrow> string" where
  "lower s = map lower_char s"

definition lstrip :: "string \<Rightarrow> string" where
  "lstrip s = dropWhile isspace s"

definition rstrip :: "string \<Rightarrow> string" where
  "rstrip s = rev (dropWhile isspace (rev s))"

definition strip :: "string \<Rightarrow> string" where
  "strip s = rstrip (lstrip s)"

text \<open>
  \<open>s.replace(old, new)\<close>: every occurrence of \<open>old\<close>, found from the left and
  without overlap, is replaced by \<open>new\<close>; an empty \<open>old\<close> matches before every
  character and at the end.
\<close>

function replace :: "string \<Rightarrow> string \<Rightarrow> string \<Rightarrow> string" where
  "replace old new [] = (if old = [] then new else [])"
| "replace old new (c # cs) =
     (if old = [] then new @ c # replace old new cs
      else if prefix old (c # cs) then new @ replace old new (drop (length old) (c # cs))
      else c # replace old new cs)"
  by pat_completeness auto
termination
  by (relation "measure (\<lambda>(old, new, s). length s)") auto

text \<open>\<open>a in b\<close> on strings is \<^term>\<open>sublist a b\<close>; \<open>s.endswith(t)\<close> is \<^term>\<open>suffix t s\<close>.\<close>

section \<open>City key normalisation\<close>

definition default_city :: string where
  "default_city = ''default''"

definition city_mapping :: "(string \<times> string) list" where
  "city_mapping =
     [(''bangalore'', ''bengaluru''), (''bombay'', ''mumbai''), (''madras'', ''chennai'')]"

text \<open>\<open>d.get(k, dflt)\<close> on a dictionary.\<close>

definition dict_get :: "('k \<times> 'v) list \<Rightarrow> 'k \<Rightarrow> 'v \<Rightarrow> 'v" where
  "dict_get d k dflt = (case map_of d k of None \<Rightarrow> dflt | Some v \<Rightarrow> v)"

text \<open>
  \<open>ModelManager._normalize_city_name\<close>. The argument is \<open>None\<close> or a string;
  \<open>not city\<close> holds for \<open>None\<close> and for the empty string.
\<close>

definition normalize_city_name :: "string option \<Rightarrow> string" where
  "normalize_city_name city =
     (case city of
        None \<Rightarrow> default_city
      | Some s \<Rightarrow>
          if s = [] then default_city
          else
            (let normalized = replace '' '' ''_'' (strip (lower s))
             in dict_get city_mapping normalized normalized))"

section \<open>Model bundles and the registry\<close>

text \<open>
  A bundle is the dictionary with the keys \<open>'temperature'\<close>, \<open>'rain'\<close> and
  \<open>'scaler'\<close>; a key that is absent is \<^term>\<open>None\<close>. The unpickled objects are
  opaque, of type \<^typ>\<open>'m\<close>.
\<close>

record 'm model_bundle =
  temperature :: "'m option"
  rain :: "'m option"
  scaler :: "'m option"

definition is_complete :: "'m model_bundle \<Rightarrow> bool" where
  "is_complete m = (temperature m \<noteq> None \<and> rain m \<noteq> None \<and> scaler m \<noteq> None)"

text \<open>
  \<open>self.models\<close> is a dictionary; its keys are iterated in insertion order, so it
  is an association list in that order. Assigning to a key that is present keeps
  its position (\<^const>\<open>AList.update\<close>).
\<close>

type_synonym 'm registry = "(string \<times> 'm model_bundle) list"

datatype exn =
    ValueError string
  | KeyError string
  | FileNotFoundError string
  | OtherError string

text \<open>The loop of the partial match, over the items of \<open>self.models\<close>.\<close>

fun partial_match :: "string \<Rightarrow> 'm registry \<Rightarrow> 'm model_bundle option" where
  "partial_match normalized_city [] = None"
| "partial_match normalized_city ((model_city, models) # rest) =
     (if sublist normalized_city model_city \<or> sublist model_city normalized_city
      then (if is_complete models then Some models else partial_match normalized_city rest)
      else partial_match normalized_city rest)"

text \<open>The loop of the last resort.\<close>

fun first_available :: "'m registry \<Rightarrow> 'm model_bundle option" where
  "first_available [] = None"
| "first_available ((model_city, models) # rest) =
     (if is_complete models then Some models else first_available rest)"

definition no_valid_models :: exn where
  "no_valid_models =
     ValueError ''No valid models available. Please run: python train_models.py --all''"

text \<open>\<open>ModelManager.get_models\<close>, on the registry \<open>self.models\<close>.\<close>

definition get_models :: "'m registry \<Rightarrow> string option \<Rightarrow> exn + 'm model_bundle" where
  "get_models reg city0 =
     (let city = (if city0 = None \<or> city0 = Some [] then Some default_city else city0);
          normalized_city = normalize_city_name city;
          exact = (case map_of reg normalized_city of
                     None \<Rightarrow> None
                   | Some models \<Rightarrow> if is_complete models then Some models else None)
      in case exact of
           Some models \<Rightarrow> Inr models
         | None \<Rightarrow>
            (case partial_match normalized_city reg of
               Some models \<Rightarrow> Inr models
             | None \<Rightarrow>
                (case (case map_of reg default_city of
                         None \<Rightarrow> None
                       | Some models \<Rightarrow> if is_complete models then Some models else None) of
                   Some models \<Rightarrow> Inr models
                 | None \<Rightarrow>
                    (case first_available reg of
                       Some models \<Rightarrow> Inr models
                     | None \<Rightarrow> Inl no_valid_models))))"

section \<open>Loading the registry\<close>

text \<open>
  What \<open>_load_models\<close> reads: the files of the working directory and, when the
  directory \<open>models\<close> exists, its listing in the order of \<open>os.listdir\<close>. A
  file is paired with the object it unpickles to, or with \<^term>\<open>None\<close> when
  opening or unpickling it raises.
\<close>

record 'm filesystem =
  cwd_files :: "(string \<times> 'm option) list"
  models_dir :: "(string \<times> 'm option) list option"

definition pickle_load :: "(string \<times> 'm option) list \<Rightarrow> string \<Rightarrow> 'm option" where
  "pickle_load files name = (case map_of files name of None \<Rightarrow> None | Some content \<Rightarrow> content)"

text \<open>
  The default bundle (lines 54 to 72): the result is the registry after the
  block and the flag \<open>default_loaded\<close>. Any exception leaves both as they were.
\<close>

definition load_default :: "(string \<times> 'm option) list \<Rightarrow> 'm registry \<times> bool" where
  "load_default files =
     (if map_of files ''temperature_model.pkl'' \<noteq> None then
        (case pickle_load files ''temperature_model.pkl'' of
           None \<Rightarrow> ([], False)
         | Some temp_model \<Rightarrow>
            (case pickle_load files ''rain_model.pkl'' of
               None \<Rightarrow> ([], False)
             | Some rain_model \<Rightarrow>
                (case pickle_load files ''scaler.pkl'' of
                   None \<Rightarrow> ([], False)
                 | Some sc \<Rightarrow>
                    (AList.update default_city
                       \<lparr>temperature = Some temp_model, rain = Some rain_model,
                        scaler = Some sc\<rparr> [], True))))
      else ([], False))"

definition empty_bundle :: "'m model_bundle" where
  "empty_bundle = \<lparr>temperature = None, rain = None, scaler = None\<rparr>"

text \<open>\<open>if city not in city_models: city_models[city] = {}\<close>\<close>

definition ensure_city :: "string \<Rightarrow> 'm registry \<Rightarrow> 'm registry" where
  "ensure_city city city_models =
     (if map_of city_models city = None then AList.update city empty_bundle city_models
      else city_models)"

text \<open>One iteration of the loop over \<open>model_files\<close> (lines 79 to 108).\<close>

definition load_file :: "string \<times> 'm option \<Rightarrow> 'm registry \<Rightarrow> 'm registry" where
  "load_file entry city_models =
     (let file = fst entry; content = snd entry
      in if suffix ''_temperature_model.pkl'' file then
           (let city = replace ''_temperature_model.pkl'' [] file;
                cm = ensure_city city city_models
            in case content of
                 None \<Rightarrow> cm
               | Some obj \<Rightarrow> AList.map_entry city (\<lambda>b. b\<lparr>temperature := Some obj\<rparr>) cm)
         else if suffix ''_rain_model.pkl'' file then
           (let city = replace ''_rain_model.pkl'' [] file;
                cm = ensure_city city city_models
            in case content of
                 None \<Rightarrow> cm
               | Some obj \<Rightarrow> AList.map_entry city (\<lambda>b. b\<lparr>rain := Some obj\<rparr>) cm)
         else if suffix ''_scaler.pkl'' file then
           (let city = replace ''_scaler.pkl'' [] file;
                cm = ensure_city city city_models
            in case content of
                 None \<Rightarrow> cm
               | Some obj \<Rightarrow> AList.map_entry city (\<lambda>b. b\<lparr>scaler := Some obj\<rparr>) cm)
         else city_models)"

text \<open>The loop that adds the complete city models (lines 111 to 114).\<close>

fun add_complete :: "'m registry \<Rightarrow> 'm registry \<Rightarrow> 'm registry" where
  "add_complete [] reg = reg"
| "add_complete ((city, models) # rest) reg =
     add_complete rest (if is_complete models then AList.update city models reg else reg)"

definition no_model_files :: exn where
  "no_model_files =
     FileNotFoundError ''No model files found. Please run: python train_models.py --all''"

text \<open>\<open>ModelManager._load_models\<close>: the registry, or the exception of line 118.\<close>

definition load_models :: "'m filesystem \<Rightarrow> exn + 'm registry" where
  "load_models fs =
     (let (reg0, default_loaded) = load_default (cwd_files fs);
          reg = (case models_dir fs of
                   None \<Rightarrow> reg0
                 | Some model_files \<Rightarrow> add_complete (fold load_file model_files []) reg0)
      in if reg = [] then (if \<not> default_loaded then Inl no_model_files else Inr reg)
         else Inr reg)"

section \<open>Request, response and stored rows\<close>

text \<open>
  Python floats are modelled as \<^typ>\<open>real\<close> (the finite values), Python
  integers as \<^typ>\<open>int\<close>. The row of the table \<open>predictions\<close> carries the
  columns that the constructor call of \<open>predict_weather\<close> sets; \<open>id\<close> and
  \<open>timestamp\<close> are assigned by the database and are not modelled. Its fields
  are written with the prefix \<open>prediction.\<close> where the request and response
  schemas use the same names.
\<close>

record prediction =
  city :: "string option"
  humidity :: real
  pressure :: real
  wind_speed :: real
  clouds :: real
  month :: int
  day :: int
  predicted_temperature :: real
  predicted_rain :: string
  rain_probability :: real

record weather_input =
  humidity :: real
  pressure :: real
  wind_speed :: real
  clouds :: real
  month :: int
  day :: int
  city :: "string option"

record weather_prediction =
  predicted_temperature :: real
  predicted_rain :: string
  rain_probability :: real

record http_exception =
  status_code :: nat
  detail :: string

section \<open>Input validation\<close>

text \<open>
  The constraints \<open>Field(..., ge=lo, le=hi)\<close> of \<open>WeatherInput\<close>. A violated
  constraint is reported with the name of its field; the errors come in the order
  of the field declarations.
\<close>

definition field_errors :: "string \<Rightarrow> real \<Rightarrow> real \<Rightarrow> real \<Rightarrow> string list" where
  "field_errors name ge le v = (if ge \<le> v \<and> v \<le> le then [] else [name])"

definition validation_errors :: "weather_input \<Rightarrow> string list" where
  "validation_errors x =
     field_errors ''humidity'' 0 100 (humidity x) @
     field_errors ''pressure'' 900 1100 (pressure x) @
     field_errors ''wind_speed'' 0 100 (wind_speed x) @
     field_errors ''clouds'' 0 100 (clouds x) @
     field_errors ''month'' 1 12 (of_int (month x)) @
     field_errors ''day'' 1 31 (of_int (day x))"

definition validate :: "weather_input \<Rightarrow> string list + weather_input" where
  "validate x = (if validation_errors x = [] then Inr x else Inl (validation_errors x))"

section \<open>Inference\<close>

text \<open>
  The methods of the unpickled objects and the builtin \<open>round\<close> belong to
  libraries; they are parameters. Each method returns its result or the exception
  it raises. \<open>predict\<close> stands for \<open>model.predict(df_scaled)[0]\<close> and
  \<open>predict_proba\<close> for \<open>model.predict_proba(df_scaled)[0][1]\<close>.
\<close>

record ('m, 'v) sklearn =
  transform :: "'m \<Rightarrow> real list \<Rightarrow> exn + 'v"
  predict :: "'m \<Rightarrow> 'v \<Rightarrow> exn + real"
  predict_proba :: "'m \<Rightarrow> 'v \<Rightarrow> exn + real"
  py_round :: "real \<Rightarrow> nat \<Rightarrow> real"

text \<open>\<open>int(x)\<close> on a number truncates towards zero.\<close>

definition py_int :: "real \<Rightarrow> int" where
  "py_int x = (if 0 \<le> x then \<lfloor>x\<rfloor> else \<lceil>x\<rceil>)"

text \<open>The row of the data frame, in the order of \<open>FEATURE_COLUMNS\<close>.\<close>

definition feature_row :: "weather_input \<Rightarrow> real list" where
  "feature_row input_data =
     [humidity input_data, pressure input_data, wind_speed input_data, clouds input_data,
      of_int (month input_data), of_int (day input_data)]"

definition quoted :: "string \<Rightarrow> string" where
  "quoted k = CHR 0x27 # k @ [CHR 0x27]"

text \<open>
  Lines 451 to 472 of \<open>predict_weather\<close>: the three components are read from the
  bundle (a missing key raises \<open>KeyError\<close>), the features are scaled and the two
  models are run. The result is \<open>(temp_prediction, rain_class, rain_proba)\<close>.
\<close>

definition inference ::
  "('m, 'v) sklearn \<Rightarrow> 'm model_bundle \<Rightarrow> weather_input \<Rightarrow> exn + (real \<times> int \<times> real)" where
  "inference env models input_data =
     (case temperature models of
        None \<Rightarrow> Inl (KeyError (quoted ''temperature''))
      | Some temperature_model \<Rightarrow>
     (case rain models of
        None \<Rightarrow> Inl (KeyError (quoted ''rain''))
      | Some rain_model \<Rightarrow>
     (case scaler models of
        None \<Rightarrow> Inl (KeyError (quoted ''scaler''))
      | Some sc \<Rightarrow>
     (case transform env sc (feature_row input_data) of
        Inl e \<Rightarrow> Inl e
      | Inr df_scaled \<Rightarrow>
     (case predict env temperature_model df_scaled of
        Inl e \<Rightarrow> Inl e
      | Inr temp_prediction \<Rightarrow>
     (case predict env rain_model df_scaled of
        Inl e \<Rightarrow> Inl e
      | Inr rain_value \<Rightarrow>
     (case predict_proba env rain_model df_scaled of
        Inl e \<Rightarrow> Inl e
      | Inr rain_proba \<Rightarrow> Inr (temp_prediction, py_int rain_value, rain_proba))))))))"

text \<open>Line 474.\<close>

definition rain_label :: "int \<Rightarrow> string" where
  "rain_label rain_class = (if rain_class = 1 then ''Yes'' else ''No'')"

section \<open>The prediction store\<close>

text \<open>
  The table \<open>predictions\<close> is the list of its rows, oldest first. The session
  may raise in \<open>add\<close>, \<open>commit\<close> or \<open>refresh\<close>; which of them does, and with what
  message, is an input. The exception is one of the database library
  (\<^const>\<open>OtherError\<close>). A row is in the table once \<open>commit\<close> has returned.
\<close>

datatype db_fault = NoFault | AddFails string | CommitFails string | RefreshFails string

text \<open>Lines 477 to 492: the result is the raised exception, if any, and the table.\<close>

definition save :: "db_fault \<Rightarrow> prediction \<Rightarrow> prediction list \<Rightarrow> exn option \<times> prediction list" where
  "save fault prediction_record db =
     (case fault of
        AddFails msg \<Rightarrow> (Some (OtherError msg), db)
      | CommitFails msg \<Rightarrow> (Some (OtherError msg), db)
      | RefreshFails msg \<Rightarrow> (Some (OtherError msg), db @ [prediction_record])
      | NoFault \<Rightarrow> (None, db @ [prediction_record]))"

text \<open>The body of the \<open>try\<close> block of \<open>predict_weather\<close> (lines 447 to 499).\<close>

definition predict_body ::
  "('m, 'v) sklearn \<Rightarrow> 'm registry \<Rightarrow> db_fault \<Rightarrow> weather_input \<Rightarrow> prediction list \<Rightarrow>
   (exn + weather_prediction) \<times> prediction list" where
  "predict_body env reg fault input_data db =
     (case get_models reg (city input_data) of
        Inl e \<Rightarrow> (Inl e, db)
      | Inr models \<Rightarrow>
         (case inference env models input_data of
            Inl e \<Rightarrow> (Inl e, db)
          | Inr (temp_prediction, rain_class, rain_proba) \<Rightarrow>
             (let predicted_rain = rain_label rain_class;
                  prediction_record =
                    \<lparr>prediction.city = city input_data,
                     prediction.humidity = humidity input_data,
                     prediction.pressure = pressure input_data,
                     prediction.wind_speed = wind_speed input_data,
                     prediction.clouds = clouds input_data,
                     prediction.month = month input_data,
                     prediction.day = day input_data,
                     prediction.predicted_temperature = temp_prediction,
                     prediction.predicted_rain = predicted_rain,
                     prediction.rain_probability = rain_proba\<rparr>
              in case save fault prediction_record db of
                   (Some e, db') \<Rightarrow> (Inl e, db')
                 | (None, db') \<Rightarrow>
                     (Inr \<lparr>predicted_temperature = py_round env temp_prediction 2,
                           predicted_rain = predicted_rain,
                           rain_probability = py_round env rain_proba 4\<rparr>, db'))))"

text \<open>The \<open>except\<close> clauses of \<open>predict_weather\<close> (lines 501 to 523).\<close>

definition handle_exception :: "exn \<Rightarrow> http_exception" where
  "handle_exception e =
     (case e of
        ValueError msg \<Rightarrow>
          \<lparr>status_code = 404,
           detail = ''Model error: '' @ msg @ ''. Please train models first.''\<rparr>
      | KeyError msg \<Rightarrow>
          \<lparr>status_code = 500,
           detail = ''Model configuration error: Missing '' @ msg @ ''. Please retrain models.''\<rparr>
      | FileNotFoundError error_message \<Rightarrow>
          (if sublist ''no such column'' (lower error_message) \<or>
              sublist ''city'' (lower error_message)
           then \<lparr>status_code = 500,
                 detail = ''Database schema error. Please delete predictions.db and restart the server. Error: '' @ error_message\<rparr>
           else \<lparr>status_code = 500, detail = ''Prediction error: '' @ error_message\<rparr>)
      | OtherError error_message \<Rightarrow>
          (if sublist ''no such column'' (lower error_message) \<or>
              sublist ''city'' (lower error_message)
           then \<lparr>status_code = 500,
                 detail = ''Database schema error. Please delete predictions.db and restart the server. Error: '' @ error_message\<rparr>
           else \<lparr>status_code = 500, detail = ''Prediction error: '' @ error_message\<rparr>))"

text \<open>The endpoint function \<open>predict_weather\<close>.\<close>

definition predict_weather ::
  "('m, 'v) sklearn \<Rightarrow> 'm registry \<Rightarrow> db_fault \<Rightarrow> weather_input \<Rightarrow> prediction list \<Rightarrow>
   (http_exception + weather_prediction) \<times> prediction list" where
  "predict_weather env reg fault input_data db =
     (case predict_body env reg fault input_data db of
        (Inl e, db') \<Rightarrow> (Inl (handle_exception e), db')
      | (Inr response, db') \<Rightarrow> (Inr response, db'))"

text \<open>
  The route \<open>POST /predict\<close>: the body is validated against \<open>WeatherInput\<close>
  before the endpoint function is called.
\<close>

datatype predict_response =
    RequestValidationError "string list"
  | HTTPException http_exception
  | Success weather_prediction

definition post_predict ::
  "('m, 'v) sklearn \<Rightarrow> 'm registry \<Rightarrow> db_fault \<Rightarrow> weather_input \<Rightarrow> prediction list \<Rightarrow>
   predict_response \<times> prediction list" where
  "post_predict env reg fault body db =
     (case validate body of
        Inl errors \<Rightarrow> (RequestValidationError errors, db)
      | Inr input_data \<Rightarrow>
         (case predict_weather env reg fault input_data db of
            (Inl e, db') \<Rightarrow> (HTTPException e, db')
          | (Inr response, db') \<Rightarrow> (Success response, db')))"

text \<open>\<open>clear_history\<close>: the number of deleted rows; a failure rolls back.\<close>

definition clear_history :: "string option \<Rightarrow> prediction list \<Rightarrow> (http_exception + nat) \<times> prediction list" where
  "clear_history fault db =
     (case fault of
        Some msg \<Rightarrow> (Inl \<lparr>status_code = 500, detail = ''Delete error: '' @ msg\<rparr>, db)
      | None \<Rightarrow> (Inr (length db), []))"

text \<open>
  The three counts of \<open>get_statistics\<close> (lines 553 to 555); the two rounded
  floating-point figures of the response are not modelled.
\<close>

record statistics =
  total_predictions :: nat
  rain_predictions :: nat
  no_rain_predictions :: nat

definition get_statistics :: "prediction list \<Rightarrow> statistics" where
  "get_statistics db =
     \<lparr>total_predictions = length db,
      rain_predictions = length (filter (\<lambda>p. prediction.predicted_rain p = ''Yes'') db),
      no_rain_predictions = length (filter (\<lambda>p. prediction.predicted_rain p = ''No'') db)\<rparr>"

text \<open>
  The states of the table that the endpoints can reach from the empty table
  that \<open>init_db\<close> creates, for a fixed library and a fixed registry.
\<close>

inductive reachable :: "('m, 'v) sklearn \<Rightarrow> 'm registry \<Rightarrow> prediction list \<Rightarrow> bool"
  for env :: "('m, 'v) sklearn" and reg :: "'m registry" where
  reachable_init: "reachable env reg []"
| reachable_predict:
    "reachable env reg db \<Longrightarrow> reachable env reg (snd (post_predict env reg fault body db))"
| reachable_clear:
    "reachable env reg db \<Longrightarrow> reachable env reg (snd (clear_history fault db))"

section \<open>The specification's wording\<close>

text \<open>
  The four steps of \<open>resolve\<close> as the specification words them: the exact
  match, the first registered key that is a substring of the requested key or
  contains it and whose bundle is complete, the key \<open>default\<close>, and the first
  registered complete bundle. \<open>resolve\<close> is the first step that succeeds.
\<close>

definition exact_match :: "'m registry \<Rightarrow> string \<Rightarrow> 'm model_bundle option" where
  "exact_match reg key =
     (case map_of reg key of
        None \<Rightarrow> None
      | Some b \<Rightarrow> if is_complete b then Some b else None)"

definition substring_match :: "'m registry \<Rightarrow> string \<Rightarrow> 'm model_bundle option" where
  "substring_match reg key =
     map_option snd
       (find (\<lambda>kb. (sublist (fst kb) key \<or> sublist key (fst kb)) \<and> is_complete (snd kb)) reg)"

definition first_registered :: "'m registry \<Rightarrow> 'm model_bundle option" where
  "first_registered reg = map_option snd (find (\<lambda>kb. is_complete (snd kb)) reg)"

definition first_success :: "'a option list \<Rightarrow> 'a option" where
  "first_success steps = (case filter (\<lambda>r. r \<noteq> None) steps of [] \<Rightarrow> None | r # _ \<Rightarrow> r)"

definition resolve :: "'m registry \<Rightarrow> string \<Rightarrow> 'm model_bundle option" where
  "resolve reg key =
     first_success
       [exact_match reg key, substring_match reg key, exact_match reg ''default'',
        first_registered reg]"

text \<open>
  \<open>normalize\<close> as the specification words it: trim, lower-case, every run of
  whitespace collapsed to one separator, then the alias table.
\<close>

fun collapse_whitespace :: "string \<Rightarrow> string" where
  "collapse_whitespace [] = []"
| "collapse_whitespace [c] = (if isspace c then ''_'' else [c])"
| "collapse_whitespace (c # d # cs) =
     (if isspace c then (if isspace d then collapse_whitespace (d # cs)
                         else CHR ''_'' # collapse_whitespace (d # cs))
      else c # collapse_whitespace (d # cs))"

definition spec_normalize :: "string option \<Rightarrow> string" where
  "spec_normalize raw =
     (case raw of
        None \<Rightarrow> ''default''
      | Some s \<Rightarrow>
          if s = [] then ''default''
          else (let key = collapse_whitespace (lower (strip s))
                in dict_get city_mapping key key))"

text \<open>The ranges of the six features.\<close>

definition in_ranges :: "weather_input \<Rightarrow> bool" where
  "in_ranges x =
     (0 \<le> humidity x \<and> humidity x \<le> 100 \<and> 900 \<le> pressure x \<and> pressure x \<le> 1100 \<and>
      0 \<le> wind_speed x \<and> wind_speed x \<le> 100 \<and> 0 \<le> clouds x \<and> clouds x \<le> 100 \<and>
      1 \<le> month x \<and> month x \<le> 12 \<and> 1 \<le> day x \<and> day x \<le> 31)"

text \<open>The invariant of the table: every row is labelled \<open>Yes\<close> or \<open>No\<close>.\<close>

definition labelled :: "prediction list \<Rightarrow> bool" where
  "labelled db =
     (\<forall>p\<in>set db. prediction.predicted_rain p = ''Yes'' \<or> prediction.predicted_rain p = ''No'')"

section \<open>Example data\<close>

text \<open>
  Stand-ins for unpickled objects: a model that predicts a constant, and a scaler
  that multiplies every feature by a factor. A method that an object does not
  have raises \<open>AttributeError\<close>.
\<close>

datatype example_model = Constant real | Factor real

definition kolkata_bundle :: "example_model model_bundle" where
  "kolkata_bundle =
     \<lparr>temperature = Some (Constant 30.456), rain = Some (Constant 1), scaler = Some (Factor 2)\<rparr>"

definition partial_registry :: "example_model registry" where
  "partial_registry =
     [(''pune'', \<lparr>temperature = Some (Constant 25), rain = Some (Constant 0), scaler = None\<rparr>),
      (''kolkata'', kolkata_bundle)]"

definition partial_artifacts :: "example_model filesystem" where
  "partial_artifacts =
     \<lparr>cwd_files = [],
      models_dir = Some
        [(''pune_temperature_model.pkl'', Some (Constant 25)),
         (''pune_rain_model.pkl'', Some (Constant 0)),
         (''kolkata_scaler.pkl'', Some (Factor 2)),
         (''kolkata_temperature_model.pkl'', Some (Constant 30.456)),
         (''kolkata_rain_model.pkl'', Some (Constant 1))]\<rparr>"

definition example_input :: weather_input where
  "example_input =
     \<lparr>humidity = 75, pressure = 1010, wind_speed = 15, clouds = 60, month = 7, day = 15,
      city = Some ''Kolkata''\<rparr>"

text \<open>Rounding to \<open>n\<close> decimal places, halves to the even neighbour.\<close>

definition decimal_round :: "real \<Rightarrow> nat \<Rightarrow> real" where
  "decimal_round x n =
     (let y = x * 10 ^ n; f = \<lfloor>y\<rfloor>; d = y - of_int f
      in (if d < 1 / 2 then of_int f
          else if 1 / 2 < d then of_int (f + 1)
          else if even f then of_int f else of_int (f + 1)) / 10 ^ n)"

definition attribute_error :: exn where
  "attribute_error = OtherError ''AttributeError''"

definition example_env :: "(example_model, real list) sklearn" where
  "example_env =
     \<lparr>transform = (\<lambda>m x. case m of Factor k \<Rightarrow> Inr (map (\<lambda>v. v * k) x)
                                  | Constant r \<Rightarrow> Inl attribute_error),
      predict = (\<lambda>m v. case m of Constant r \<Rightarrow> Inr r | Factor k \<Rightarrow> Inl attribute_error),
      predict_proba = (\<lambda>m v. case m of Constant r \<Rightarrow> Inr (if r = 1 then 0.73456 else 0.2)
                                      | Factor k \<Rightarrow> Inl attribute_error),
      py_round = decimal_round\<rparr>"

definition default_bundle :: "example_model model_bundle" where
  "default_bundle =
     \<lparr>temperature = Some (Constant 20), rain = Some (Constant 0), scaler = Some (Factor 1)\<rparr>"

definition delhi_bundle :: "example_model model_bundle" where
  "delhi_bundle =
     \<lparr>temperature = Some (Constant 41.5), rain = Some (Constant 2), scaler = Some (Factor 1)\<rparr>"

definition example_registry :: "example_model registry" where
  "example_registry =
     [(''default'', default_bundle), (''kolkata'', kolkata_bundle), (''delhi'', delhi_bundle)]"

definition empty_key_artifacts :: "example_model filesystem" where
  "empty_key_artifacts =
     \<lparr>cwd_files =
        [(''temperature_model.pkl'', Some (Constant 20)), (''rain_model.pkl'', Some (Constant 0)),
         (''scaler.pkl'', Some (Factor 1))],
      models_dir = Some
        [(''_temperature_model.pkl'', Some (Constant 30.456)),
         (''_rain_model.pkl'', Some (Constant 1)),
         (''_scaler.pkl'', Some (Factor 2))]\<rparr>"

definition empty_key_registry :: "example_model registry" where
  "empty_key_registry = [(''default'', default_bundle), ([], kolkata_bundle)]"

definition kolkata_row :: prediction where
  "kolkata_row =
     \<lparr>prediction.city = Some ''Kolkata'', prediction.humidity = 75, prediction.pressure = 1010,
      prediction.wind_speed = 15, prediction.clouds = 60, prediction.month = 7,
      prediction.day = 15, prediction.predicted_temperature = 30.456,
      prediction.predicted_rain = ''Yes'', prediction.rain_probability = 0.73456\<rparr>"


definition kolkata_response :: weather_prediction where
  "kolkata_response =
     \<lparr>predicted_temperature = 30.46, predicted_rain = ''Yes'', rain_probability = 0.7346\<rparr>"

definition delhi_input :: weather_input where
  "delhi_input = example_input\<lparr>city := Some ''Delhi''\<rparr>"

definition delhi_response :: weather_prediction where
  "delhi_response =
     \<lparr>predicted_temperature = 41.5, predicted_rain = ''No'', rain_probability = 0.2\<rparr>"

definition delhi_row :: prediction where
  "delhi_row =
     \<lparr>prediction.city = Some ''Delhi'', prediction.humidity = 75, prediction.pressure = 1010,
      prediction.wind_speed = 15, prediction.clouds = 60, prediction.month = 7,
      prediction.day = 15, prediction.predicted_temperature = 41.5,
      prediction.predicted_rain = ''No'', prediction.rain_probability = 0.2\<rparr>"

section \<open>Resolution\<close>

lemma partial_match_find: "partial_match n reg = substring_match reg n"
  by (induction reg) (auto simp: substring_match_def)

lemma first_available_find: "first_available reg = first_registered reg"
  by (induction reg) (auto simp: first_registered_def)

lemma normalize_default: "normalize_city_name (Some default_city) = default_city"
  unfolding default_city_def by code_simp

lemma normalize_falsy:
  "normalize_city_name (if c = None \<or> c = Some [] then Some default_city else c) =
   normalize_city_name c"
  by (auto simp: normalize_default) (simp_all add: normalize_city_name_def)

text \<open>
  C1. For every registry and every requested city, \<open>get_models\<close> returns what
  the precedence of the specification selects for the normalised key: the exact
  match if it is complete, else the first registered key that is a substring of
  the key or contains it and has a complete bundle, else the complete bundle
  under \<open>default\<close>, else the first registered complete bundle; and it raises the
  no-models error exactly when none of the four steps yields a bundle.
\<close>

theorem get_models_precedence:
  "get_models reg c =
     (case resolve reg (normalize_city_name c) of
        Some b \<Rightarrow> Inr b
      | None \<Rightarrow> Inl no_valid_models)"
  unfolding get_models_def Let_def normalize_falsy partial_match_find first_available_find
    resolve_def first_success_def
  by (auto simp: exact_match_def default_city_def split: option.splits)

theorem get_models_precedence_witness:
  "get_models example_registry (Some ''Kolkata West'') = Inr kolkata_bundle"
proof -
  have "resolve example_registry (normalize_city_name (Some ''Kolkata West'')) =
        Some kolkata_bundle"
    by code_simp
  with get_models_precedence [of example_registry "Some ''Kolkata West''"]
  show ?thesis by simp
qed

lemma partial_match_complete: "partial_match n reg = Some b \<Longrightarrow> is_complete b"
  by (induction reg) (auto split: if_splits)

lemma first_available_complete: "first_available reg = Some b \<Longrightarrow> is_complete b"
  by (induction reg) (auto split: if_splits)

lemma get_models_complete: "get_models reg c = Inr b \<Longrightarrow> is_complete b"
  unfolding get_models_def Let_def
  by (auto split: option.splits if_splits
      dest: partial_match_complete first_available_complete)

lemma set_update_subset: "set (AList.update k v reg) \<subseteq> insert (k, v) (set reg)"
  by (induction reg) auto

lemma add_complete_all:
  "\<forall>kb\<in>set reg. is_complete (snd kb) \<Longrightarrow>
   \<forall>kb\<in>set (add_complete cm reg). is_complete (snd kb)"
proof (induction cm arbitrary: reg)
  case Nil
  then show ?case by simp
next
  case (Cons a cm)
  obtain city models where a: "a = (city, models)" by (cases a)
  show ?case
  proof (cases "is_complete models")
    case True
    have "\<forall>kb\<in>set (AList.update city models reg). is_complete (snd kb)"
      using Cons.prems True set_update_subset [of city models reg] by auto
    from Cons.IH [OF this] show ?thesis using a True by simp
  next
    case False
    from Cons.IH [OF Cons.prems] show ?thesis using a False by simp
  qed
qed

lemma load_default_all: "\<forall>kb\<in>set (fst (load_default files)). is_complete (snd kb)"
  by (auto simp: load_default_def is_complete_def split: option.splits)

lemma load_models_all:
  assumes "load_models fs = Inr reg"
  shows "\<forall>kb\<in>set reg. is_complete (snd kb)"
proof -
  obtain reg0 dl where ld: "load_default (cwd_files fs) = (reg0, dl)"
    by (cases "load_default (cwd_files fs)")
  have c0: "\<forall>kb\<in>set reg0. is_complete (snd kb)"
    using load_default_all [of "cwd_files fs"] ld by simp
  have "reg = (case models_dir fs of None \<Rightarrow> reg0
               | Some model_files \<Rightarrow> add_complete (fold load_file model_files []) reg0)"
    using assms ld by (auto simp: load_models_def Let_def split: if_splits)
  then show ?thesis
    using c0 add_complete_all [OF c0] by (cases "models_dir fs") simp_all
qed

text \<open>
  C2. Whatever the registry holds, a bundle that \<open>get_models\<close> returns has all
  three components; and every bundle that \<open>_load_models\<close> registers has all
  three components, also when the artifacts of some city are only partly there.
\<close>

theorem registry_never_incomplete:
  "(get_models reg c = Inr b \<longrightarrow> is_complete b) \<and>
   (load_models fs = Inr loaded \<longrightarrow> (\<forall>kb\<in>set loaded. is_complete (snd kb)))"
  using get_models_complete load_models_all by blast

theorem registry_never_incomplete_witness:
  "get_models partial_registry (Some ''Pune'') = Inr kolkata_bundle \<and>
   is_complete kolkata_bundle \<and>
   load_models partial_artifacts = Inr [(''kolkata'', kolkata_bundle)] \<and>
   list_all (\<lambda>kb. is_complete (snd kb)) [(''kolkata'', kolkata_bundle)]"
proof -
  have g: "get_models partial_registry (Some ''Pune'') = Inr kolkata_bundle"
    by code_simp
  have l: "load_models partial_artifacts = Inr [(''kolkata'', kolkata_bundle)]"
    by code_simp
  from registry_never_incomplete
         [of partial_registry "Some ''Pune''" kolkata_bundle partial_artifacts
             "[(''kolkata'', kolkata_bundle)]"] g l
  show ?thesis by (simp add: list_all_iff)
qed

section \<open>Normalisation\<close>

text \<open>
  The claim C3 says that runs of whitespace are collapsed to one separator. The
  code replaces each space by one underscore: two spaces give two underscores.
\<close>

theorem normalize_collapse_counterexample:
  "normalize_city_name (Some ''New  Delhi'') = ''new__delhi'' \<and>
   spec_normalize (Some ''New  Delhi'') = ''new_delhi''"
  by code_simp

lemma replace_space:
  "replace '' '' ''_'' s = map (\<lambda>c. if c = CHR '' '' then CHR ''_'' else c) s"
  by (induction s) auto

lemma dict_get_city_mapping:
  "dict_get city_mapping k k =
     (if k = ''bangalore'' then ''bengaluru'' else if k = ''bombay'' then ''mumbai''
      else if k = ''madras'' then ''chennai'' else k)"
  by (simp add: dict_get_def city_mapping_def)

text \<open>
  C3, amended. \<open>_normalize_city_name\<close> is total. \<open>None\<close> and the empty string
  give \<open>default\<close>. Any other string is lower-cased, stripped of leading and
  trailing whitespace, and each of its spaces is replaced by one underscore (runs
  are not collapsed); then the alias table is applied, which maps \<open>bangalore\<close>,
  \<open>bombay\<close> and \<open>madras\<close> to \<open>bengaluru\<close>, \<open>mumbai\<close> and \<open>chennai\<close> and
  leaves every other key unchanged. \<open>"  Kolkata "\<close> and \<open>"kolkata"\<close> have the
  same key.
\<close>

theorem normalize_city_name_spec:
  "normalize_city_name None = ''default'' \<and>
   normalize_city_name (Some []) = ''default'' \<and>
   (s \<noteq> [] \<longrightarrow>
      normalize_city_name (Some s) =
        dict_get city_mapping
          (map (\<lambda>c. if c = CHR '' '' then CHR ''_'' else c) (strip (lower s)))
          (map (\<lambda>c. if c = CHR '' '' then CHR ''_'' else c) (strip (lower s)))) \<and>
   dict_get city_mapping ''bangalore'' ''bangalore'' = ''bengaluru'' \<and>
   dict_get city_mapping ''bombay'' ''bombay'' = ''mumbai'' \<and>
   dict_get city_mapping ''madras'' ''madras'' = ''chennai'' \<and>
   (k \<notin> {''bangalore'', ''bombay'', ''madras''} \<longrightarrow> dict_get city_mapping k k = k) \<and>
   normalize_city_name (Some ''  Kolkata '') = normalize_city_name (Some ''kolkata'')"
proof -
  have ex: "normalize_city_name (Some ''  Kolkata '') = normalize_city_name (Some ''kolkata'')"
    by code_simp
  have a: "normalize_city_name None = ''default''"
    by (simp add: normalize_city_name_def default_city_def)
  have b: "normalize_city_name (Some []) = ''default''"
    by (simp add: normalize_city_name_def default_city_def)
  have c: "s \<noteq> [] \<longrightarrow>
      normalize_city_name (Some s) =
        dict_get city_mapping
          (map (\<lambda>c. if c = CHR '' '' then CHR ''_'' else c) (strip (lower s)))
          (map (\<lambda>c. if c = CHR '' '' then CHR ''_'' else c) (strip (lower s)))"
    by (simp add: normalize_city_name_def replace_space Let_def)
  have d: "dict_get city_mapping ''bangalore'' ''bangalore'' = ''bengaluru''"
    and e: "dict_get city_mapping ''bombay'' ''bombay'' = ''mumbai''"
    and f: "dict_get city_mapping ''madras'' ''madras'' = ''chennai''"
    and g: "k \<notin> {''bangalore'', ''bombay'', ''madras''} \<longrightarrow> dict_get city_mapping k k = k"
    by (simp_all add: dict_get_city_mapping)
  show ?thesis
    by (intro conjI) (rule a b c d e f g ex)+
qed

theorem normalize_city_name_spec_witness:
  "normalize_city_name (Some ''New  Delhi'') = ''new__delhi'' \<and>
   dict_get city_mapping ''pune'' ''pune'' = ''pune''"
proof -
  have a: "''New  Delhi'' \<noteq> []" by simp
  have b: "''pune'' \<notin> {''bangalore'', ''bombay'', ''madras''}" by simp
  have c: "map (\<lambda>c. if c = CHR '' '' then CHR ''_'' else c) (strip (lower ''New  Delhi'')) = ''new__delhi''"
    by code_simp
  from normalize_city_name_spec [of "''New  Delhi''" "''pune''"] a b
  have "normalize_city_name (Some ''New  Delhi'') = dict_get city_mapping
          (map (\<lambda>c. if c = CHR '' '' then CHR ''_'' else c) (strip (lower ''New  Delhi'')))
          (map (\<lambda>c. if c = CHR '' '' then CHR ''_'' else c) (strip (lower ''New  Delhi'')))"
    and d: "dict_get city_mapping ''pune'' ''pune'' = ''pune''"
    by blast+
  then show ?thesis unfolding c by (simp add: dict_get_city_mapping)
qed

section \<open>Validation\<close>

lemma validation_errors_Nil: "validation_errors x = [] \<longleftrightarrow> in_ranges x"
  by (auto simp: validation_errors_def field_errors_def in_ranges_def)

lemma validation_errors_set:
  "set (validation_errors x) =
     (if 0 \<le> humidity x \<and> humidity x \<le> 100 then {} else {''humidity''}) \<union>
     (if 900 \<le> pressure x \<and> pressure x \<le> 1100 then {} else {''pressure''}) \<union>
     (if 0 \<le> wind_speed x \<and> wind_speed x \<le> 100 then {} else {''wind_speed''}) \<union>
     (if 0 \<le> clouds x \<and> clouds x \<le> 100 then {} else {''clouds''}) \<union>
     (if 1 \<le> month x \<and> month x \<le> 12 then {} else {''month''}) \<union>
     (if 1 \<le> day x \<and> day x \<le> 31 then {} else {''day''})"
  unfolding validation_errors_def field_errors_def by simp

text \<open>
  C4. A request body is accepted if and only if the six features are in their
  ranges. A body that is out of range is answered with the validation errors
  alone, whatever the registry, the models and the store are, and the store is
  left as it was; the errors name a field exactly when that field is out of its
  range. Only a body in range reaches \<open>predict_weather\<close>.
\<close>

theorem validation_before_models:
  "(validate x = Inr x \<longleftrightarrow> in_ranges x) \<and>
   (in_ranges x \<longrightarrow> post_predict env reg fault x db =
      (case predict_weather env reg fault x db of
         (Inl e, db') \<Rightarrow> (HTTPException e, db') | (Inr r, db') \<Rightarrow> (Success r, db'))) \<and>
   (\<not> in_ranges x \<longrightarrow>
      post_predict env reg fault x db = (RequestValidationError (validation_errors x), db) \<and>
      validation_errors x \<noteq> []) \<and>
   (''humidity'' \<in> set (validation_errors x) \<longleftrightarrow> \<not> (0 \<le> humidity x \<and> humidity x \<le> 100)) \<and>
   (''pressure'' \<in> set (validation_errors x) \<longleftrightarrow> \<not> (900 \<le> pressure x \<and> pressure x \<le> 1100)) \<and>
   (''wind_speed'' \<in> set (validation_errors x) \<longleftrightarrow> \<not> (0 \<le> wind_speed x \<and> wind_speed x \<le> 100)) \<and>
   (''clouds'' \<in> set (validation_errors x) \<longleftrightarrow> \<not> (0 \<le> clouds x \<and> clouds x \<le> 100)) \<and>
   (''month'' \<in> set (validation_errors x) \<longleftrightarrow> \<not> (1 \<le> month x \<and> month x \<le> 12)) \<and>
   (''day'' \<in> set (validation_errors x) \<longleftrightarrow> \<not> (1 \<le> day x \<and> day x \<le> 31))"
proof -
  have v: "validate x = Inr x \<longleftrightarrow> in_ranges x"
    by (simp add: validate_def validation_errors_Nil)
  have p: "in_ranges x \<longrightarrow> post_predict env reg fault x db =
      (case predict_weather env reg fault x db of
         (Inl e, db') \<Rightarrow> (HTTPException e, db') | (Inr r, db') \<Rightarrow> (Success r, db'))"
    by (simp add: post_predict_def validate_def validation_errors_Nil)
  have n: "\<not> in_ranges x \<longrightarrow>
      post_predict env reg fault x db = (RequestValidationError (validation_errors x), db) \<and>
      validation_errors x \<noteq> []"
    by (simp add: post_predict_def validate_def validation_errors_Nil)
  show ?thesis
    using v p n unfolding validation_errors_set by simp
qed

theorem validation_before_models_witness:
  "post_predict example_env example_registry NoFault (example_input\<lparr>humidity := -1\<rparr>) [] = (RequestValidationError [''humidity''], []) \<and>
   post_predict example_env example_registry NoFault (example_input\<lparr>pressure := 1200\<rparr>) [] = (RequestValidationError [''pressure''], []) \<and>
   post_predict example_env example_registry NoFault (example_input\<lparr>month := 13\<rparr>) [] = (RequestValidationError [''month''], []) \<and>
   post_predict example_env example_registry NoFault (example_input\<lparr>day := 0\<rparr>) [] = (RequestValidationError [''day''], []) \<and>
   validate example_input = Inr example_input"
proof -
  note rejected = validation_before_models [THEN conjunct2, THEN conjunct2, THEN conjunct1, THEN mp, THEN conjunct1]
  note accepted = validation_before_models [THEN conjunct1, THEN iffD2]
  have h: "\<not> in_ranges (example_input\<lparr>humidity := -1\<rparr>)"
    and p: "\<not> in_ranges (example_input\<lparr>pressure := 1200\<rparr>)"
    and m: "\<not> in_ranges (example_input\<lparr>month := 13\<rparr>)"
    and d: "\<not> in_ranges (example_input\<lparr>day := 0\<rparr>)"
    and ok: "in_ranges example_input"
    by (simp_all add: in_ranges_def example_input_def)
  have eh: "validation_errors (example_input\<lparr>humidity := -1\<rparr>) = [''humidity'']"
    and ep: "validation_errors (example_input\<lparr>pressure := 1200\<rparr>) = [''pressure'']"
    and em: "validation_errors (example_input\<lparr>month := 13\<rparr>) = [''month'']"
    and ed: "validation_errors (example_input\<lparr>day := 0\<rparr>) = [''day'']"
    by (simp_all add: validation_errors_def field_errors_def example_input_def)
  show ?thesis
    using rejected [OF h, of example_env example_registry NoFault "[]"] rejected [OF p, of example_env example_registry NoFault "[]"]
      rejected [OF m, of example_env example_registry NoFault "[]"] rejected [OF d, of example_env example_registry NoFault "[]"] accepted [OF ok]
    unfolding eh ep em ed by (intro conjI)
qed

section \<open>The prediction endpoint\<close>

lemma handle_other_500: "status_code (handle_exception (OtherError msg)) = 500"
  by (simp add: handle_exception_def)

lemma predict_body_success:
  assumes "predict_body env reg fault input_data db = (Inr response, db')"
  shows "\<exists>models temp_prediction rain_class rain_proba.
           get_models reg (city input_data) = Inr models \<and>
           inference env models input_data = Inr (temp_prediction, rain_class, rain_proba) \<and>
           fault = NoFault \<and>
           response = \<lparr>predicted_temperature = py_round env temp_prediction 2,
                        predicted_rain = rain_label rain_class,
                        rain_probability = py_round env rain_proba 4\<rparr> \<and>
           db' = db @ [\<lparr>prediction.city = city input_data,
                     prediction.humidity = humidity input_data,
                     prediction.pressure = pressure input_data,
                     prediction.wind_speed = wind_speed input_data,
                     prediction.clouds = clouds input_data,
                     prediction.month = month input_data,
                     prediction.day = day input_data,
                     prediction.predicted_temperature = temp_prediction,
                     prediction.predicted_rain = rain_label rain_class,
                     prediction.rain_probability = rain_proba\<rparr>]"
  using assms unfolding predict_body_def save_def Let_def
  by (auto split: sum.splits prod.splits option.splits db_fault.splits)

lemma predict_weather_success:
  "predict_weather env reg fault input_data db = (Inr response, db') \<longleftrightarrow>
   predict_body env reg fault input_data db = (Inr response, db')"
  unfolding predict_weather_def by (auto split: prod.splits sum.splits)

lemma inference_temperature:
  assumes "inference env models input_data = Inr (temp_prediction, rain_class, rain_proba)"
  shows "\<exists>temperature_model sc df_scaled.
           temperature models = Some temperature_model \<and> scaler models = Some sc \<and>
           transform env sc (feature_row input_data) = Inr df_scaled \<and>
           predict env temperature_model df_scaled = Inr temp_prediction"
  using assms unfolding inference_def by (auto split: option.splits sum.splits)

lemma example_resolution: "get_models example_registry (city example_input) = Inr kolkata_bundle"
  by code_simp

lemma example_inference:
  "inference example_env kolkata_bundle example_input = Inr (30.456, 1, 0.73456)"
  by code_simp

lemma example_prediction:
  "predict_weather example_env example_registry NoFault example_input [] =
     (Inr kolkata_response, [kolkata_row])"
  by code_simp

lemma delhi_prediction:
  "predict_weather example_env example_registry NoFault delhi_input [] =
     (Inr delhi_response, [delhi_row])"
  by code_simp

text \<open>
  The claim C5 says that a prediction is still returned when persisting fails.
  With a store whose commit fails, the endpoint answers the example request, whose
  inference succeeds, with an HTTP 500 error and no prediction.
\<close>

theorem persistence_failure_counterexample:
  "get_models example_registry (city example_input) = Inr kolkata_bundle \<and>
   inference example_env kolkata_bundle example_input = Inr (30.456, 1, 0.73456) \<and>
   predict_weather example_env example_registry (CommitFails ''database is locked'')
       example_input [] =
     (Inl \<lparr>status_code = 500, detail = ''Prediction error: database is locked''\<rparr>, [])"
  by code_simp

text \<open>
  C5, amended. When inference succeeds but adding or committing the prediction
  record fails, \<open>predict_weather\<close> returns no prediction: it raises the HTTP
  error that its handler builds from the store's message, with status 500, and
  the table is unchanged.
\<close>

theorem persistence_failure_is_error:
  assumes "get_models reg (city input_data) = Inr models"
    and "inference env models input_data = Inr r"
    and "fault = AddFails msg \<or> fault = CommitFails msg"
  shows "predict_weather env reg fault input_data db =
           (Inl (handle_exception (OtherError msg)), db) \<and>
         status_code (handle_exception (OtherError msg)) = 500"
proof -
  obtain t c p where r: "r = (t, c, p)" by (cases r)
  have "predict_body env reg fault input_data db = (Inl (OtherError msg), db)"
    using assms r unfolding predict_body_def save_def Let_def by auto
  then show ?thesis
    by (simp add: predict_weather_def handle_other_500)
qed

theorem persistence_failure_is_error_witness:
  "predict_weather example_env example_registry (CommitFails ''database is locked'')
       example_input [] =
     (Inl (handle_exception (OtherError ''database is locked'')), []) \<and>
   status_code (handle_exception (OtherError ''database is locked'')) = 500"
proof -
  have f: "CommitFails ''database is locked'' = AddFails ''database is locked'' \<or>
           CommitFails ''database is locked'' = CommitFails ''database is locked''"
    by simp
  show ?thesis
    by (rule persistence_failure_is_error [OF example_resolution example_inference f])
qed

text \<open>
  C7. Whenever \<open>predict_weather\<close> returns a prediction, the temperature of the
  response is the estimate of the regressor rounded to 2 decimal places, and the
  row that was appended to the table carries the estimate itself, unrounded.
\<close>

theorem temperature_rounded_only_in_response:
  assumes "predict_weather env reg fault input_data db = (Inr response, db')"
  shows "\<exists>models temperature_model sc df_scaled temp_prediction.
           get_models reg (city input_data) = Inr models \<and>
           temperature models = Some temperature_model \<and> scaler models = Some sc \<and>
           transform env sc (feature_row input_data) = Inr df_scaled \<and>
           predict env temperature_model df_scaled = Inr temp_prediction \<and>
           predicted_temperature response = py_round env temp_prediction 2 \<and>
           length db' = Suc (length db) \<and> butlast db' = db \<and>
           prediction.predicted_temperature (last db') = temp_prediction"
proof -
  from assms have "predict_body env reg fault input_data db = (Inr response, db')"
    by (simp add: predict_weather_success)
  from predict_body_success [OF this] obtain models temp_prediction rain_class rain_proba
    where g: "get_models reg (city input_data) = Inr models"
      and i: "inference env models input_data = Inr (temp_prediction, rain_class, rain_proba)"
      and r: "predicted_temperature response = py_round env temp_prediction 2"
      and d: "length db' = Suc (length db)" "butlast db' = db"
         "prediction.predicted_temperature (last db') = temp_prediction"
    by auto
  from inference_temperature [OF i] g r d show ?thesis by blast
qed

theorem temperature_rounded_only_in_response_witness:
  "predicted_temperature kolkata_response = 30.46 \<and>
   prediction.predicted_temperature (last [kolkata_row]) = 30.456 \<and>
   (\<exists>models temperature_model sc df_scaled temp_prediction.
      get_models example_registry (city example_input) = Inr models \<and>
      temperature models = Some temperature_model \<and> scaler models = Some sc \<and>
      transform example_env sc (feature_row example_input) = Inr df_scaled \<and>
      predict example_env temperature_model df_scaled = Inr temp_prediction \<and>
      predicted_temperature kolkata_response = py_round example_env temp_prediction 2 \<and>
      length [kolkata_row] = Suc (length ([] :: prediction list)) \<and>
      butlast [kolkata_row] = [] \<and>
      prediction.predicted_temperature (last [kolkata_row]) = temp_prediction)"
proof -
  have a: "predicted_temperature kolkata_response = 30.46"
    by (simp add: kolkata_response_def)
  have b: "prediction.predicted_temperature (last [kolkata_row]) = 30.456"
    by (simp add: kolkata_row_def)
  from a b temperature_rounded_only_in_response [OF example_prediction]
  show ?thesis by (intro conjI)
qed

lemma rain_label_Yes: "rain_label c = ''Yes'' \<longleftrightarrow> c = 1"
  by (simp add: rain_label_def)

lemma rain_label_No: "rain_label c = ''No'' \<longleftrightarrow> c \<noteq> 1"
  by (simp add: rain_label_def)

text \<open>
  C10. For every integer class value \<open>c\<close>, the label is \<open>Yes\<close> if and only if
  \<open>c = 1\<close>, and \<open>No\<close> for every other value; and whenever \<open>predict_weather\<close>
  returns a prediction, the label of the response and of the stored row is this
  label of the class that the rain classifier produced.
\<close>

theorem rain_label_iff_class_one:
  "(rain_label c = ''Yes'' \<longleftrightarrow> c = 1) \<and> (rain_label c = ''No'' \<longleftrightarrow> c \<noteq> 1) \<and>
   (predict_weather env reg fault input_data db = (Inr response, db') \<longrightarrow>
      (\<exists>models temp_prediction rain_class rain_proba.
         get_models reg (city input_data) = Inr models \<and>
         inference env models input_data = Inr (temp_prediction, rain_class, rain_proba) \<and>
         predicted_rain response = rain_label rain_class \<and>
         prediction.predicted_rain (last db') = rain_label rain_class))"
proof -
  have "predict_weather env reg fault input_data db = (Inr response, db') \<longrightarrow>
      (\<exists>models temp_prediction rain_class rain_proba.
         get_models reg (city input_data) = Inr models \<and>
         inference env models input_data = Inr (temp_prediction, rain_class, rain_proba) \<and>
         predicted_rain response = rain_label rain_class \<and>
         prediction.predicted_rain (last db') = rain_label rain_class)"
  proof
    assume "predict_weather env reg fault input_data db = (Inr response, db')"
    then have "predict_body env reg fault input_data db = (Inr response, db')"
      by (simp add: predict_weather_success)
    from predict_body_success [OF this] show "\<exists>models temp_prediction rain_class rain_proba.
         get_models reg (city input_data) = Inr models \<and>
         inference env models input_data = Inr (temp_prediction, rain_class, rain_proba) \<and>
         predicted_rain response = rain_label rain_class \<and>
         prediction.predicted_rain (last db') = rain_label rain_class"
      by auto
  qed
  with rain_label_Yes rain_label_No show ?thesis by blast
qed

theorem rain_label_iff_class_one_witness:
  "rain_label 2 = ''No'' \<and> predicted_rain delhi_response = ''No'' \<and>
   (\<exists>models temp_prediction rain_class rain_proba.
      get_models example_registry (city delhi_input) = Inr models \<and>
      inference example_env models delhi_input = Inr (temp_prediction, rain_class, rain_proba) \<and>
      predicted_rain delhi_response = rain_label rain_class \<and>
      prediction.predicted_rain (last [delhi_row]) = rain_label rain_class)"
proof -
  note c10 = rain_label_iff_class_one
    [of 2 example_env example_registry NoFault delhi_input "[]" delhi_response "[delhi_row]"]
  have a: "rain_label 2 = ''No''"
    using c10 [THEN conjunct2, THEN conjunct1] by simp
  have b: "predicted_rain delhi_response = ''No''"
    by (simp add: delhi_response_def)
  from a b c10 [THEN conjunct2, THEN conjunct2, THEN mp, OF delhi_prediction]
  show ?thesis by (intro conjI)
qed

section \<open>The prediction store\<close>

lemma save_rows: "snd (save fault row db) = db \<or> snd (save fault row db) = db @ [row]"
  by (cases fault) (simp_all add: save_def)

lemma rain_label_cases: "rain_label c = ''Yes'' \<or> rain_label c = ''No''"
  by (simp add: rain_label_def)

lemma predict_body_labelled:
  assumes "labelled db"
  shows "labelled (snd (predict_body env reg fault input_data db))"
proof (cases "get_models reg (city input_data)")
  case (Inl e)
  then show ?thesis using assms by (simp add: predict_body_def)
next
  case (Inr models)
  show ?thesis
  proof (cases "inference env models input_data")
    case (Inl e)
    then show ?thesis using assms Inr by (simp add: predict_body_def)
  next
    case (Inr r)
    obtain t c p where r: "r = (t, c, p)" by (cases r)
    show ?thesis
      using assms \<open>get_models reg (city input_data) = Inr models\<close> Inr r rain_label_cases [of c]
      unfolding predict_body_def Let_def labelled_def
      by (cases fault) (auto simp: save_def)
  qed
qed

lemma predict_weather_snd:
  "snd (predict_weather env reg fault input_data db) = snd (predict_body env reg fault input_data db)"
  unfolding predict_weather_def by (auto split: prod.splits sum.splits)

lemma post_predict_labelled:
  assumes "labelled db"
  shows "labelled (snd (post_predict env reg fault body db))"
proof (cases "validate body")
  case (Inl errs)
  then show ?thesis using assms by (simp add: post_predict_def)
next
  case (Inr input_data)
  have "snd (post_predict env reg fault body db) = snd (predict_weather env reg fault input_data db)"
    using Inr unfolding post_predict_def by (auto split: prod.splits sum.splits)
  then show ?thesis
    using predict_body_labelled [OF assms] by (simp add: predict_weather_snd)
qed

lemma clear_history_labelled: "labelled db \<Longrightarrow> labelled (snd (clear_history fault db))"
  by (cases fault) (simp_all add: clear_history_def labelled_def)

lemma reachable_labelled: "reachable env reg db \<Longrightarrow> labelled db"
  by (induction rule: reachable.induct)
     (simp_all add: post_predict_labelled clear_history_labelled, simp add: labelled_def)

lemma labelled_counts:
  "labelled db \<Longrightarrow>
   length (filter (\<lambda>p. prediction.predicted_rain p = ''Yes'') db) +
   length (filter (\<lambda>p. prediction.predicted_rain p = ''No'') db) = length db"
  by (induction db) (auto simp: labelled_def)

text \<open>
  C8. In every state of the table that the endpoints reach from the empty table,
  the rows counted as \<open>Yes\<close> and the rows counted as \<open>No\<close> by
  \<open>get_statistics\<close> add up to the total count: every row that a prediction
  stores is labelled \<open>Yes\<close> or \<open>No\<close>.
\<close>

theorem rain_counts_partition:
  assumes "reachable env reg db"
  shows "rain_predictions (get_statistics db) + no_rain_predictions (get_statistics db) =
         total_predictions (get_statistics db)"
  using labelled_counts [OF reachable_labelled [OF assms]] by (simp add: get_statistics_def)


theorem rain_counts_partition_witness:
  "reachable example_env example_registry [kolkata_row] \<and>
   rain_predictions (get_statistics [kolkata_row]) +
   no_rain_predictions (get_statistics [kolkata_row]) =
   total_predictions (get_statistics [kolkata_row])"
proof -
  have "snd (post_predict example_env example_registry NoFault example_input []) = [kolkata_row]"
    by code_simp
  with reachable_predict [OF reachable_init, of example_env example_registry NoFault example_input]
  have r: "reachable example_env example_registry [kolkata_row]"
    by simp
  from r rain_counts_partition [OF r] show ?thesis by (intro conjI)
qed

section \<open>Whitespace-only city names\<close>

lemma isspace_lower_char: "isspace (lower_char c) = isspace c"
  unfolding lower_char_def isspace_def Let_def
  by (auto simp: of_char_of)

lemma lower_all_space: "\<forall>c\<in>set s. isspace c \<Longrightarrow> \<forall>c\<in>set (lower s). isspace c"
  by (auto simp: lower_def isspace_lower_char)

lemma strip_all_space:
  assumes "\<forall>c\<in>set s. isspace c"
  shows "strip s = []"
  using assms by (auto simp: strip_def rstrip_def lstrip_def dest: set_dropWhileD)

lemma normalize_whitespace:
  assumes "s \<noteq> []" "\<forall>c\<in>set s. isspace c"
  shows "normalize_city_name (Some s) = []"
  using assms strip_all_space [OF lower_all_space [OF assms(2)]]
  by (simp add: normalize_city_name_def dict_get_def city_mapping_def)

lemma substring_match_empty: "substring_match reg [] = first_registered reg"
  by (simp add: substring_match_def first_registered_def)

lemma first_registered_exists:
  assumes "map_of reg k = Some b" and "is_complete b"
  shows "\<exists>y. first_registered reg = Some y"
proof -
  have "(k, b) \<in> set reg" using assms(1) by (rule map_of_SomeD)
  then have "find (\<lambda>kb. is_complete (snd kb)) reg \<noteq> None"
    using assms(2) by (auto simp: find_None_iff)
  then show ?thesis by (auto simp: first_registered_def)
qed

text \<open>
  The claim C9 says that a whitespace-only city is always served by the first
  registered complete bundle through the substring rule. When the model
  directory holds artifacts whose names begin with the suffix itself, the empty
  key is registered, and the exact match returns its bundle instead.
\<close>

theorem whitespace_counterexample:
  "load_models empty_key_artifacts = Inr empty_key_registry \<and>
   normalize_city_name (Some ''   '') = [] \<and>
   first_registered empty_key_registry = Some default_bundle \<and>
   get_models empty_key_registry (Some ''   '') = Inr kolkata_bundle \<and>
   kolkata_bundle \<noteq> default_bundle"
  by code_simp

text \<open>
  C9, amended. For every non-empty city string that consists of whitespace only,
  normalisation returns the empty key, not \<open>default\<close>. Resolution then returns
  the complete bundle registered under the empty key, if there is one; otherwise
  it returns the first registered complete bundle, which is what the substring
  rule selects for the empty key, without regard to the key \<open>default\<close>; it
  fails only when no registered bundle is complete.
\<close>

theorem whitespace_city_resolution:
  assumes "s \<noteq> []" and "\<forall>c\<in>set s. isspace c"
  shows "normalize_city_name (Some s) = [] \<and>
         normalize_city_name (Some s) \<noteq> ''default'' \<and>
         substring_match reg (normalize_city_name (Some s)) = first_registered reg \<and>
         get_models reg (Some s) =
           (case exact_match reg [] of
              Some b \<Rightarrow> Inr b
            | None \<Rightarrow> (case first_registered reg of
                         Some b \<Rightarrow> Inr b
                       | None \<Rightarrow> Inl no_valid_models))"
proof -
  have n: "normalize_city_name (Some s) = []"
    by (rule normalize_whitespace [OF assms])
  have "get_models reg (Some s) =
     (case exact_match reg [] of Some b \<Rightarrow> Inr b
      | None \<Rightarrow> (case first_registered reg of Some b \<Rightarrow> Inr b | None \<Rightarrow> Inl no_valid_models))"
    unfolding get_models_def Let_def normalize_falsy partial_match_find first_available_find n
      substring_match_empty
    by (auto simp: exact_match_def split: option.splits dest: first_registered_exists)
  then show ?thesis
    by (simp add: n substring_match_empty)
qed

theorem whitespace_city_resolution_witness:
  "normalize_city_name (Some ''   '') = [] \<and>
   get_models partial_registry (Some ''   '') = Inr kolkata_bundle"
proof -
  have a: "''   '' \<noteq> []" by simp
  have b: "\<forall>c\<in>set ''   ''. isspace c" by code_simp
  have e: "exact_match partial_registry [] = None" by code_simp
  have f: "first_registered partial_registry = Some kolkata_bundle" by code_simp
  from whitespace_city_resolution [OF a b, of partial_registry]
  show ?thesis by (simp add: e f)
qed

end
